theory Spec2Isabelle
  imports Complex_Main
begin

section \<open>Scope of the model\<close>

text \<open>
  The program is a FastAPI application over SQLAlchemy and PostgreSQL. Its handlers
  (\<^verbatim>\<open>main.py\<close>) are modelled as functions on the persisted state that the session
  \<^verbatim>\<open>db\<close> passed to them gives access to: four tables, each a list of rows in
  insertion order, and the identifier sequence of each table. A handler that commits
  returns the new state; an exception is a value \<open>Inl e\<close>.

  The tables obey the constraints \<^verbatim>\<open>models.py\<close> declares: server-assigned primary
  keys, the unique \<^verbatim>\<open>email\<close>, and the foreign keys of \<^verbatim>\<open>sales\<close> and
  \<^verbatim>\<open>purchases\<close> to \<^verbatim>\<open>products.id\<close>. A Python \<^verbatim>\<open>int\<close> is an \<open>int\<close> and a
  \<^verbatim>\<open>str\<close> is a \<open>string\<close>, each \<open>char\<close> standing for one character of the
  \<^verbatim>\<open>str\<close>; what an INSERT does with a value that does not fit its
  column (\<^verbatim>\<open>Mapped[int]\<close> is INTEGER, \<^verbatim>\<open>String(100)\<close> is VARCHAR(100)) is part of the
  model. \<^verbatim>\<open>float\<close> is a type parameter \<open>'f\<close> of which only the symbols \<open>0\<close>,
  \<open>+\<close> and \<open>*\<close> are used, with no law assumed about them, so that what is proved
  holds for rounding arithmetic as well as for exact arithmetic.

  \<^verbatim>\<open>myjwt.py\<close> is not part of the sources: \<^verbatim>\<open>get_password_hash\<close> and
  \<^verbatim>\<open>create_access_token\<close> are parameters, and \<^verbatim>\<open>current_user\<close> is the handler
  argument that \<^verbatim>\<open>Depends(get_current_user)\<close> supplies.
\<close>

section \<open>Data model (\<^verbatim>\<open>models.py\<close>, \<^verbatim>\<open>jsonmap.py\<close>)\<close>

text \<open>A \<^verbatim>\<open>datetime\<close> is a point on the clock that \<^verbatim>\<open>datetime.utcnow\<close> reads.\<close>

type_synonym datetime = int

text \<open>Table \<^verbatim>\<open>fastapi_usersp\<close>: columns \<^verbatim>\<open>id, email, fullname, password\<close>.\<close>

record User =
  user_id :: int
  user_email :: string
  user_fullname :: "string option"
  user_password :: string

text \<open>Table \<^verbatim>\<open>products\<close>: columns \<^verbatim>\<open>id, name, buying_price, selling_price\<close>.\<close>

record 'f Product =
  prod_id :: int
  prod_name :: string
  prod_buying_price :: 'f
  prod_selling_price :: 'f

text \<open>Table \<^verbatim>\<open>sales\<close>: columns \<^verbatim>\<open>id, product_id, quantity, created_at\<close>.\<close>

record Sale =
  sale_id :: int
  sale_product_id :: int
  sale_quantity :: int
  sale_created_at :: datetime

text \<open>Table \<^verbatim>\<open>purchases\<close>: the same columns as \<^verbatim>\<open>sales\<close>.\<close>

record Purchase =
  purchase_id :: int
  purchase_product_id :: int
  purchase_quantity :: int
  purchase_created_at :: datetime

text \<open>The request bodies.\<close>

record UserPostRegister =
  email :: string
  fullname :: string
  password :: string

record 'f ProductPostMap =
  name :: string
  buying_price :: 'f
  selling_price :: 'f

record SalePostMap =
  product_id :: int
  quantity :: int

text \<open>\<^verbatim>\<open>PurchasePostMap\<close> has the fields \<^verbatim>\<open>product_id\<close> and \<^verbatim>\<open>quantity\<close> too.\<close>

record PurchasePostMap =
  pp_product_id :: int
  pp_quantity :: int

text \<open>The response rows of the dashboard and the token.\<close>

record 'f SalesPerProduct =
  spp_product_id :: int
  spp_product_name :: string
  total_quantity_sold :: int
  total_sales_amount :: 'f

record StockPerProduct =
  stk_product_id :: int
  stk_product_name :: string
  remaining_stock :: int

record Token =
  access_token :: string
  token_type :: string

text \<open>
  The persisted state: the four tables, and for each the last value its identifier
  sequence has handed out (a primary key \<^verbatim>\<open>mapped_column(primary_key=True)\<close> of
  integer type is filled by the server from a sequence).
\<close>

record 'f db =
  users :: "User list"
  products :: "'f Product list"
  sales :: "Sale list"
  purchases :: "Purchase list"
  users_seq :: int
  products_seq :: int
  sales_seq :: int
  purchases_seq :: int

text \<open>
  The exceptions a handler can end with. \<open>HTTPException\<close> carries its status code and
  detail; the others are raised below the handler (\<open>IntegrityError\<close>, \<open>DataError\<close> and
  \<open>MultipleResultsFound\<close> by SQLAlchemy, \<open>ValueError\<close> by the database driver), are
  not caught, and reach the client as status 500.
\<close>

datatype error =
  HTTPException nat string
  | IntegrityError
  | DataError
  | ValueError
  | MultipleResultsFound

fun status_code :: "error \<Rightarrow> nat" where
  "status_code (HTTPException c d) = c"
| "status_code IntegrityError = 500"
| "status_code DataError = 500"
| "status_code ValueError = 500"
| "status_code MultipleResultsFound = 500"

text \<open>The status of the response: 200 when the handler returns, that of the exception otherwise.\<close>

definition response_status :: "error + 'a \<Rightarrow> nat" where
  "response_status r = (case r of Inl e \<Rightarrow> status_code e | Inr v \<Rightarrow> 200)"

section \<open>The column types (\<^verbatim>\<open>models.py\<close>)\<close>

text \<open>
  A column \<^verbatim>\<open>Mapped[int]\<close> is a PostgreSQL INTEGER of 32 bits. A value outside its range
  makes the statement fail with \<open>DataError\<close> before any row is touched and before the
  sequence is asked for an identifier.
\<close>

definition in_integer :: "int \<Rightarrow> bool" where
  "in_integer v \<longleftrightarrow> - 2147483648 \<le> v \<and> v \<le> 2147483647"

text \<open>
  The sequence of a primary key is of type INTEGER too: \<^verbatim>\<open>nextval\<close> gives the value
  after the last one, and fails with \<open>DataError\<close> once 2147483647 has been handed out.
\<close>

definition nextval :: "int \<Rightarrow> error + int" where
  "nextval last_value = (if last_value < 2147483647 then Inr (last_value + 1) else Inl DataError)"

text \<open>
  The driver refuses a string with a NUL character (\<open>ValueError\<close>, before the statement is
  sent). A string assigned to a column \<^verbatim>\<open>String(n)\<close> is stored as it is when it has at
  most \<open>n\<close> characters; a longer one is cut to \<open>n\<close> characters when all that is cut
  off is spaces, and makes the statement fail with \<open>DataError\<close> (\<open>None\<close> here)
  otherwise.
\<close>

definition has_nul :: "string \<Rightarrow> bool" where
  "has_nul s \<longleftrightarrow> CHR 0x00 \<in> set s"

definition varchar :: "nat \<Rightarrow> string \<Rightarrow> string option" where
  "varchar n s =
     (if length s \<le> n then Some s
      else if filter (\<lambda>c. c \<noteq> CHR '' '') (drop n s) = [] then Some (take n s)
      else None)"

section \<open>The SQL the queries are built from\<close>

text \<open>\<^verbatim>\<open>coalesce(v, d)\<close>: the first argument unless it is NULL.\<close>

definition coalesce :: "'a option \<Rightarrow> 'a \<Rightarrow> 'a" where
  "coalesce v d = (case v of None \<Rightarrow> d | Some x \<Rightarrow> x)"

text \<open>
  The aggregate \<^verbatim>\<open>sum\<close>: NULL inputs are skipped, the remaining values are added one
  after the other in the order of the rows, and the result is NULL when no value remains.
\<close>

definition sql_sum :: "'a::plus option list \<Rightarrow> 'a option" where
  "sql_sum vs =
     (case List.map_filter (\<lambda>v. v) vs of [] \<Rightarrow> None | x # xs \<Rightarrow> Some (foldl (+) x xs))"


text \<open>
  \<^verbatim>\<open>xs LEFT OUTER JOIN ys ON on\<close>: every row of \<open>xs\<close> with each row of \<open>ys\<close> that
  matches it, or once with NULLs when none does.
\<close>

definition join_rows :: "'b list \<Rightarrow> ('a \<Rightarrow> 'b \<Rightarrow> bool) \<Rightarrow> 'a \<Rightarrow> ('a \<times> 'b option) list" where
  "join_rows ys on x =
     (case filter (on x) ys of [] \<Rightarrow> [(x, None)] | m # ms \<Rightarrow> map (\<lambda>y. (x, Some y)) (m # ms))"

definition outerjoin :: "'a list \<Rightarrow> 'b list \<Rightarrow> ('a \<Rightarrow> 'b \<Rightarrow> bool) \<Rightarrow> ('a \<times> 'b option) list" where
  "outerjoin xs ys on = concat (map (join_rows ys on) xs)"

text \<open>
  \<^verbatim>\<open>GROUP BY key\<close>: one group for each value of the key, holding the rows that have
  it. SQL leaves the order of the groups open; the model lists them by the last row of
  each.
\<close>

definition group_by :: "('r \<Rightarrow> 'k) \<Rightarrow> 'r list \<Rightarrow> ('k \<times> 'r list) list" where
  "group_by key rs = map (\<lambda>k. (k, filter (\<lambda>r. key r = k) rs)) (remdups (map key rs))"

section \<open>The dashboard (\<^verbatim>\<open>main.py\<close>, lines 176 to 219)\<close>

text \<open>
  \<^verbatim>\<open>sales_per_product\<close>: products outer-joined with sales, grouped by
  \<^verbatim>\<open>Product.id\<close>. \<^verbatim>\<open>Product.name\<close> is read off a row of the group (it depends on
  the primary key, and a group is never empty). \<^verbatim>\<open>Sale.quantity\<close> is NULL on the
  row of a product without sales, and so is its product with the price. \<open>to_float\<close>
  is the conversion of the integer quantity in \<^verbatim>\<open>Sale.quantity * Product.selling_price\<close>.
\<close>

definition sales_per_product ::
  "(int \<Rightarrow> 'f::{zero,plus,times}) \<Rightarrow> User \<Rightarrow> 'f db \<Rightarrow> 'f SalesPerProduct list \<times> 'f db" where
  "sales_per_product to_float current_user d =
     (map (\<lambda>(pid, rows).
        \<lparr>spp_product_id = pid,
         spp_product_name = prod_name (fst (hd rows)),
         total_quantity_sold =
           coalesce (sql_sum (map (\<lambda>(p, s). map_option sale_quantity s) rows)) 0,
         total_sales_amount =
           coalesce (sql_sum (map (\<lambda>(p, s).
             map_option (\<lambda>s. to_float (sale_quantity s) * prod_selling_price p) s) rows)) 0\<rparr>)
        (group_by (\<lambda>(p, s). prod_id p)
           (outerjoin (products d) (sales d) (\<lambda>p s. prod_id p = sale_product_id s))),
      d)"

text \<open>
  \<^verbatim>\<open>stock_per_product\<close>: the two subqueries sum the quantities by
  \<^verbatim>\<open>product_id\<close>; products are outer-joined with both, and the NULL of a missing
  row becomes 0.
\<close>

definition sales_sub :: "'f db \<Rightarrow> (int \<times> int option) list" where
  "sales_sub d =
     map (\<lambda>(pid, rows). (pid, sql_sum (map (\<lambda>s. Some (sale_quantity s)) rows)))
       (group_by sale_product_id (sales d))"

definition purchase_sub :: "'f db \<Rightarrow> (int \<times> int option) list" where
  "purchase_sub d =
     map (\<lambda>(pid, rows). (pid, sql_sum (map (\<lambda>r. Some (purchase_quantity r)) rows)))
       (group_by purchase_product_id (purchases d))"

definition stock_per_product :: "User \<Rightarrow> 'f db \<Rightarrow> StockPerProduct list \<times> 'f db" where
  "stock_per_product current_user d =
     (map (\<lambda>((p, s), pu).
        \<lparr>stk_product_id = prod_id p,
         stk_product_name = prod_name p,
         remaining_stock =
           coalesce (Option.bind pu snd) 0 - coalesce (Option.bind s snd) 0\<rparr>)
        (outerjoin
           (outerjoin (products d) (sales_sub d) (\<lambda>p r. prod_id p = fst r))
           (purchase_sub d) (\<lambda>(p, s) r. prod_id p = fst r)),
      d)"

section \<open>The constraints of the schema (\<^verbatim>\<open>models.py\<close>)\<close>

text \<open>
  What the database keeps true of the tables: the primary keys and
  \<^verbatim>\<open>User.email\<close> (\<^verbatim>\<open>unique=True\<close>) have no duplicates, every identifier in a
  table was handed out by the table's sequence, and the \<^verbatim>\<open>product_id\<close> of every
  sale and purchase is the \<^verbatim>\<open>id\<close> of a product (\<^verbatim>\<open>ForeignKey("products.id")\<close>).
\<close>

definition no_orphans :: "'f db \<Rightarrow> bool" where
  "no_orphans d \<longleftrightarrow>
     (\<forall>s \<in> set (sales d). sale_product_id s \<in> prod_id ` set (products d)) \<and>
     (\<forall>r \<in> set (purchases d). purchase_product_id r \<in> prod_id ` set (products d))"

definition db_ok :: "'f db \<Rightarrow> bool" where
  "db_ok d \<longleftrightarrow>
     distinct (map user_id (users d)) \<and> distinct (map user_email (users d)) \<and>
     distinct (map prod_id (products d)) \<and>
     distinct (map sale_id (sales d)) \<and> distinct (map purchase_id (purchases d)) \<and>
     (\<forall>u \<in> set (users d). user_id u \<le> users_seq d) \<and>
     (\<forall>p \<in> set (products d). prod_id p \<le> products_seq d) \<and>
     (\<forall>s \<in> set (sales d). sale_id s \<le> sales_seq d) \<and>
     (\<forall>r \<in> set (purchases d). purchase_id r \<le> purchases_seq d) \<and>
     no_orphans d"

text \<open>The state after \<^verbatim>\<open>Base.metadata.create_all\<close> on an empty database.\<close>

definition empty_db :: "'f db" where
  "empty_db = \<lparr>users = [], products = [], sales = [], purchases = [],
     users_seq = 0, products_seq = 0, sales_seq = 0, purchases_seq = 0\<rparr>"

section \<open>Registration (\<^verbatim>\<open>main.py\<close>, lines 58 to 84)\<close>

text \<open>
  \<^verbatim>\<open>Result.scalar_one_or_none()\<close>: the row, None when there is none, and
  \<^verbatim>\<open>MultipleResultsFound\<close> when there are several.
\<close>

definition scalar_one_or_none :: "'a list \<Rightarrow> error + 'a option" where
  "scalar_one_or_none rows =
     (case rows of [] \<Rightarrow> Inr None | [r] \<Rightarrow> Inr (Some r) | r # r' # rs \<Rightarrow> Inl MultipleResultsFound)"

text \<open>
  \<^verbatim>\<open>db.add(model_obj); db.commit(); db.refresh(model_obj)\<close> for a \<^verbatim>\<open>User\<close>, whose
  three strings go to columns \<^verbatim>\<open>String(100)\<close>. When the values fit, the INSERT takes
  the next value of the sequence (which stays taken when the statement fails then) and is
  refused when it breaks the primary key or the unique \<^verbatim>\<open>email\<close>.
\<close>

definition add_user :: "string \<Rightarrow> string option \<Rightarrow> string \<Rightarrow> 'f db \<Rightarrow> (error + User) \<times> 'f db" where
  "add_user e f p d =
     (if has_nul e \<or> (case f of None \<Rightarrow> False | Some s \<Rightarrow> has_nul s) \<or> has_nul p
      then (Inl ValueError, d)
      else
        case (varchar 100 e,
              case f of None \<Rightarrow> Some None | Some s \<Rightarrow> map_option Some (varchar 100 s),
              varchar 100 p) of
          (Some e', Some f', Some p') \<Rightarrow>
            (case nextval (users_seq d) of
               Inl err \<Rightarrow> (Inl err, d)
             | Inr i \<Rightarrow>
                 (let model_obj = \<lparr>user_id = i, user_email = e', user_fullname = f',
                                     user_password = p'\<rparr>;
                      d' = d\<lparr>users_seq := i\<rparr>
                  in if i \<in> user_id ` set (users d) \<or> e' \<in> user_email ` set (users d)
                     then (Inl IntegrityError, d')
                     else (Inr model_obj, d'\<lparr>users := users d @ [model_obj]\<rparr>)))
        | _ \<Rightarrow> (Inl DataError, d))"

text \<open>
  \<^verbatim>\<open>register_user\<close>. \<open>get_password_hash\<close> and \<open>create_access_token\<close> (subject,
  minutes of validity) stand for the functions of \<^verbatim>\<open>myjwt\<close>. A \<^verbatim>\<open>User\<close> object
  is truthy, so \<^verbatim>\<open>if existing_user\<close> asks whether a row was found.
\<close>

definition register_user ::
  "(string \<Rightarrow> string) \<Rightarrow> (string \<Rightarrow> nat \<Rightarrow> string) \<Rightarrow> UserPostRegister \<Rightarrow> 'f db
     \<Rightarrow> (error + Token) \<times> 'f db" where
  "register_user get_password_hash create_access_token user d =
     (case scalar_one_or_none (filter (\<lambda>u. user_email u = email user) (users d)) of
        Inl e \<Rightarrow> (Inl e, d)
      | Inr (Some existing_user) \<Rightarrow> (Inl (HTTPException 400 ''Email already registered''), d)
      | Inr None \<Rightarrow>
          (let hashed_password = get_password_hash (password user)
           in case add_user (email user) (Some (fullname user)) hashed_password d of
                (Inl e, d') \<Rightarrow> (Inl e, d')
              | (Inr model_obj, d') \<Rightarrow>
                  (Inr \<lparr>access_token = create_access_token (email user) 30,
                        token_type = ''bearer''\<rparr>, d')))"

section \<open>Products, sales and purchases (\<^verbatim>\<open>main.py\<close>, lines 106 to 171)\<close>

text \<open>The list endpoints return the rows of the table and commit nothing.\<close>

definition get_products :: "User \<Rightarrow> 'f db \<Rightarrow> 'f Product list \<times> 'f db" where
  "get_products current_user d = (products d, d)"

text \<open>
  \<^verbatim>\<open>selectinload\<close> fills the \<^verbatim>\<open>product\<close> attribute of the objects returned; the
  rows of the result are those of the table.
\<close>

definition get_sales :: "User \<Rightarrow> 'f db \<Rightarrow> Sale list \<times> 'f db" where
  "get_sales current_user d = (sales d, d)"

definition get_purchases :: "User \<Rightarrow> 'f db \<Rightarrow> Purchase list \<times> 'f db" where
  "get_purchases current_user d = (purchases d, d)"

text \<open>
  \<^verbatim>\<open>create_product\<close>: the object is built from the body as it is and inserted, and
  \<^verbatim>\<open>db.refresh\<close> reads the row back. \<^verbatim>\<open>name\<close> goes to a column
  \<^verbatim>\<open>String(100)\<close>; the prices go to columns of the type of \<^verbatim>\<open>float\<close> and are not
  looked at. The constraint the INSERT can break is the primary key.
\<close>

definition create_product ::
  "'f ProductPostMap \<Rightarrow> User \<Rightarrow> 'f db \<Rightarrow> (error + 'f Product) \<times> 'f db" where
  "create_product json_product_obj current_user d =
     (if has_nul (name json_product_obj) then (Inl ValueError, d)
      else
        case varchar 100 (name json_product_obj) of
          None \<Rightarrow> (Inl DataError, d)
        | Some stored_name \<Rightarrow>
            (case nextval (products_seq d) of
               Inl err \<Rightarrow> (Inl err, d)
             | Inr i \<Rightarrow>
                 (let model_obj = \<lparr>prod_id = i, prod_name = stored_name,
                                     prod_buying_price = buying_price json_product_obj,
                                     prod_selling_price = selling_price json_product_obj\<rparr>;
                      d' = d\<lparr>products_seq := i\<rparr>
                  in if i \<in> prod_id ` set (products d)
                     then (Inl IntegrityError, d')
                     else (Inr model_obj, d'\<lparr>products := products d @ [model_obj]\<rparr>))))"

text \<open>
  \<^verbatim>\<open>create_sale\<close>: the object is built from the body as it is; \<^verbatim>\<open>created_at\<close>
  gets its default, the reading \<open>utcnow\<close> of the clock when the row is inserted.
  \<^verbatim>\<open>product_id\<close> and \<^verbatim>\<open>quantity\<close> go to INTEGER columns: a value out of range
  ends the call with \<open>DataError\<close> and the state as it was. Otherwise the INSERT takes
  the next identifier and is refused (\<open>IntegrityError\<close>, the identifier staying taken)
  when \<^verbatim>\<open>product_id\<close> is the \<^verbatim>\<open>id\<close> of no product or the primary key is taken.
  No exception is caught, and nothing else is checked.
\<close>

definition create_sale ::
  "SalePostMap \<Rightarrow> User \<Rightarrow> datetime \<Rightarrow> 'f db \<Rightarrow> (error + Sale) \<times> 'f db" where
  "create_sale json_sale_obj current_user utcnow d =
     (if \<not> (in_integer (product_id json_sale_obj) \<and> in_integer (quantity json_sale_obj))
      then (Inl DataError, d)
      else
        case nextval (sales_seq d) of
          Inl err \<Rightarrow> (Inl err, d)
        | Inr i \<Rightarrow>
            (let sale = \<lparr>sale_id = i, sale_product_id = product_id json_sale_obj,
                           sale_quantity = quantity json_sale_obj, sale_created_at = utcnow\<rparr>;
                 d' = d\<lparr>sales_seq := i\<rparr>
             in if product_id json_sale_obj \<notin> prod_id ` set (products d)
                   \<or> i \<in> sale_id ` set (sales d)
                then (Inl IntegrityError, d')
                else (Inr sale, d'\<lparr>sales := sales d @ [sale]\<rparr>)))"

text \<open>\<^verbatim>\<open>create_purchase\<close> is the same code on the table \<^verbatim>\<open>purchases\<close>.\<close>

definition create_purchase ::
  "PurchasePostMap \<Rightarrow> User \<Rightarrow> datetime \<Rightarrow> 'f db \<Rightarrow> (error + Purchase) \<times> 'f db" where
  "create_purchase json_purchase_obj current_user utcnow d =
     (if \<not> (in_integer (pp_product_id json_purchase_obj)
             \<and> in_integer (pp_quantity json_purchase_obj))
      then (Inl DataError, d)
      else
        case nextval (purchases_seq d) of
          Inl err \<Rightarrow> (Inl err, d)
        | Inr i \<Rightarrow>
            (let purchase = \<lparr>purchase_id = i,
                               purchase_product_id = pp_product_id json_purchase_obj,
                               purchase_quantity = pp_quantity json_purchase_obj,
                               purchase_created_at = utcnow\<rparr>;
                 d' = d\<lparr>purchases_seq := i\<rparr>
             in if pp_product_id json_purchase_obj \<notin> prod_id ` set (products d)
                   \<or> i \<in> purchase_id ` set (purchases d)
                then (Inl IntegrityError, d')
                else (Inr purchase, d'\<lparr>purchases := purchases d @ [purchase]\<rparr>)))"

section \<open>Deleting a product (\<^verbatim>\<open>models.py\<close>, lines 48, 49, 58 and 71)\<close>

text \<open>
  The foreign keys are declared \<^verbatim>\<open>ForeignKey("products.id")\<close>, with no
  \<^verbatim>\<open>ondelete\<close>: the action of the database is its default, NO ACTION, and
  \<^verbatim>\<open>DELETE FROM products WHERE id = pid\<close> is refused while a sale or a purchase
  references the product.
\<close>

definition delete_product_row :: "int \<Rightarrow> 'f db \<Rightarrow> (error + unit) \<times> 'f db" where
  "delete_product_row pid d =
     (if pid \<in> sale_product_id ` set (sales d) \<or> pid \<in> purchase_product_id ` set (purchases d)
      then (Inl IntegrityError, d)
      else (Inr (), d\<lparr>products := filter (\<lambda>p. prod_id p \<noteq> pid) (products d)\<rparr>))"

text \<open>
  \<^verbatim>\<open>Product.sales\<close> and \<^verbatim>\<open>Product.purchases\<close> are declared
  \<^verbatim>\<open>relationship(..., cascade="all, delete-orphan")\<close>: on
  \<^verbatim>\<open>session.delete(product); session.commit()\<close> the session deletes the objects of
  both collections, then the product, in one transaction (a failure leaves the state as
  it was).
\<close>

definition session_delete_product :: "'f Product \<Rightarrow> 'f db \<Rightarrow> (error + unit) \<times> 'f db" where
  "session_delete_product product d =
     (case delete_product_row (prod_id product)
             (d\<lparr>sales := filter (\<lambda>s. sale_product_id s \<noteq> prod_id product) (sales d),
                purchases := filter (\<lambda>r. purchase_product_id r \<noteq> prod_id product) (purchases d)\<rparr>) of
        (Inl e, d') \<Rightarrow> (Inl e, d)
      | (Inr u, d') \<Rightarrow> (Inr u, d'))"

section \<open>The session of a call (\<^verbatim>\<open>main.py\<close>, lines 34 to 39)\<close>

text \<open>The routes of \<^verbatim>\<open>main.py\<close>.\<close>

datatype endpoint =
  GET_root
  | POST_register
  | POST_login
  | GET_products
  | POST_products
  | GET_sales
  | POST_sales
  | GET_purchases
  | POST_purchases
  | GET_sales_per_product
  | GET_stock_per_product

text \<open>
  Whether the handler of the route has the parameter \<^verbatim>\<open>db: Session = Depends(get_db)\<close>:
  all have it but \<^verbatim>\<open>read_root\<close> and \<^verbatim>\<open>login_user\<close>.
\<close>

fun depends_get_db :: "endpoint \<Rightarrow> bool" where
  "depends_get_db GET_root = False"
| "depends_get_db POST_login = False"
| "depends_get_db POST_register = True"
| "depends_get_db GET_products = True"
| "depends_get_db POST_products = True"
| "depends_get_db GET_sales = True"
| "depends_get_db POST_sales = True"
| "depends_get_db GET_purchases = True"
| "depends_get_db POST_purchases = True"
| "depends_get_db GET_sales_per_product = True"
| "depends_get_db GET_stock_per_product = True"

text \<open>What happens to sessions during a call: one is obtained, the handler runs, one is closed.\<close>

datatype 's event = Acquire 's | Run | Close 's

text \<open>
  \<^verbatim>\<open>get_db\<close> with the handler that the framework runs at its \<^verbatim>\<open>yield\<close>.
  \<open>session_local\<close> is what the call \<^verbatim>\<open>SessionLocal()\<close> comes to: a session, or
  an exception, which is raised before the \<^verbatim>\<open>try\<close>, so that the handler does not
  run. When the handler returns, the generator is resumed and its \<^verbatim>\<open>finally\<close> closes
  the session; when the handler raises, the exception is thrown into the generator at the
  \<^verbatim>\<open>yield\<close>, the \<^verbatim>\<open>finally\<close> closes the session, and the exception goes on.
\<close>

definition get_db :: "error + 's \<Rightarrow> ('s \<Rightarrow> error + 'r) \<Rightarrow> (error + 'r) \<times> 's event list" where
  "get_db session_local handler =
     (case session_local of
        Inl e \<Rightarrow> (Inl e, [])
      | Inr db \<Rightarrow>
          (case handler db of
             Inr v \<Rightarrow> (Inr v, [Acquire db, Run, Close db])
           | Inl e \<Rightarrow> (Inl e, [Acquire db, Run, Close db])))"

text \<open>A call of a route: its handler gets a session from \<^verbatim>\<open>get_db\<close> when it asks for one.\<close>

definition api_call ::
  "endpoint \<Rightarrow> error + 's \<Rightarrow> ('s option \<Rightarrow> error + 'r) \<Rightarrow> (error + 'r) \<times> 's event list" where
  "api_call ep session_local handler =
     (if depends_get_db ep then get_db session_local (\<lambda>db. handler (Some db))
      else (handler None, [Run]))"

text \<open>The sessions obtained in a trace, and those still held at its end.\<close>

fun acquired :: "'s event list \<Rightarrow> 's list" where
  "acquired [] = []"
| "acquired (Acquire s # es) = s # acquired es"
| "acquired (Run # es) = acquired es"
| "acquired (Close s # es) = acquired es"

fun held :: "'s list \<Rightarrow> 's event list \<Rightarrow> 's list" where
  "held hs [] = hs"
| "held hs (Acquire s # es) = held (s # hs) es"
| "held hs (Run # es) = held hs es"
| "held hs (Close s # es) = held (remove1 s hs) es"

section \<open>A state to evaluate on\<close>

definition alice :: User where
  "alice = \<lparr>user_id = 1, user_email = ''alice@duka.test'', user_fullname = Some ''Alice'',
     user_password = ''$2b$12$hash''\<rparr>"

definition shop :: "real db" where
  "shop = \<lparr>users = [alice],
     products =
       [\<lparr>prod_id = 1, prod_name = ''Pen'', prod_buying_price = 6, prod_selling_price = 10\<rparr>,
        \<lparr>prod_id = 2, prod_name = ''Ink'', prod_buying_price = 5 / 2, prod_selling_price = 4\<rparr>,
        \<lparr>prod_id = 3, prod_name = ''Pad'', prod_buying_price = 1, prod_selling_price = 2\<rparr>],
     sales =
       [\<lparr>sale_id = 1, sale_product_id = 1, sale_quantity = 2, sale_created_at = 100\<rparr>,
        \<lparr>sale_id = 2, sale_product_id = 1, sale_quantity = 3, sale_created_at = 110\<rparr>,
        \<lparr>sale_id = 3, sale_product_id = 2, sale_quantity = 7, sale_created_at = 120\<rparr>],
     purchases =
       [\<lparr>purchase_id = 1, purchase_product_id = 1, purchase_quantity = 20, purchase_created_at = 50\<rparr>,
        \<lparr>purchase_id = 2, purchase_product_id = 2, purchase_quantity = 4, purchase_created_at = 60\<rparr>],
     users_seq = 1, products_seq = 3, sales_seq = 3, purchases_seq = 2\<rparr>"

section \<open>Properties\<close>

subsection \<open>The dashboard\<close>

lemma map_filter_Some: "List.map_filter (\<lambda>v. v) (map (\<lambda>r. Some (f r)) rs) = map f rs"
  by (induction rs) (simp_all add: List.map_filter_simps)

lemma foldl_plus_sum_list: "foldl (+) (x::int) xs = x + sum_list xs"
  by (induction xs arbitrary: x) simp_all

lemma sql_sum_Some:
  "sql_sum (map (\<lambda>r. Some (f r :: int)) rs) = (if rs = [] then None else Some (sum_list (map f rs)))"
  by (cases rs) (simp_all add: sql_sum_def List.map_filter_simps map_filter_Some foldl_plus_sum_list)

lemma filter_key_distinct:
  "distinct ks \<Longrightarrow> filter (\<lambda>r. fst r = k) (map (\<lambda>k. (k, h k)) ks) = (if k \<in> set ks then [(k, h k)] else [])"
  by (induction ks) auto

lemma filter_group_by:
  "filter (\<lambda>r. fst r = k) (map (\<lambda>(pid, rows). (pid, g rows)) (group_by key rs)) =
     (if k \<in> key ` set rs then [(k, g (filter (\<lambda>r. key r = k) rs))] else [])"
proof -
  have "map (\<lambda>(pid, rows). (pid, g rows)) (group_by key rs) =
        map (\<lambda>k. (k, g (filter (\<lambda>r. key r = k) rs))) (remdups (map key rs))"
    by (simp add: group_by_def)
  then show ?thesis
    using filter_key_distinct [of "remdups (map key rs)" k "\<lambda>k. g (filter (\<lambda>r. key r = k) rs)"]
    by simp
qed

lemma coalesce_group_sum:
  "coalesce (Option.bind (case filter (\<lambda>r. k = fst r) (map (\<lambda>(pid, rows). (pid, sql_sum (map (\<lambda>r. Some (f r :: int)) rows))) (group_by key rs)) of [] \<Rightarrow> None | m # ms \<Rightarrow> Some m) snd) 0
   = sum_list (map f (filter (\<lambda>r. key r = k) rs))"
proof (cases "k \<in> key ` set rs")
  case True
  then have "filter (\<lambda>r. key r = k) rs \<noteq> []"
    by (auto simp: filter_empty_conv)
  with True show ?thesis
    by (simp add: eq_commute [of k] filter_group_by sql_sum_Some coalesce_def)
next
  case False
  then have "filter (\<lambda>r. key r = k) rs = []"
    by (auto simp: filter_empty_conv)
  with False show ?thesis
    by (simp add: eq_commute [of k] filter_group_by coalesce_def)
qed

lemma outerjoin_single:
  assumes "\<And>x. x \<in> set xs \<Longrightarrow> length (filter (on x) ys) \<le> 1"
  shows "outerjoin xs ys on = map (\<lambda>x. (x, case filter (on x) ys of [] \<Rightarrow> None | m # ms \<Rightarrow> Some m)) xs"
  using assms
proof (induction xs)
  case Nil
  then show ?case by (simp add: outerjoin_def)
next
  case (Cons x xs)
  have "length (filter (on x) ys) \<le> 1" using Cons.prems by simp
  then have "join_rows ys on x = [(x, case filter (on x) ys of [] \<Rightarrow> None | m # ms \<Rightarrow> Some m)]"
    by (cases "filter (on x) ys") (simp_all add: join_rows_def)
  moreover have "outerjoin xs ys on = map (\<lambda>x. (x, case filter (on x) ys of [] \<Rightarrow> None | m # ms \<Rightarrow> Some m)) xs"
    using Cons by simp
  ultimately show ?case by (simp add: outerjoin_def)
qed

lemma sub_at_most_one:
  "length (filter (\<lambda>r. k = fst r) (map (\<lambda>(pid, rows). (pid, g rows)) (group_by key rs))) \<le> 1"
proof -
  have "filter (\<lambda>r. k = fst r) (map (\<lambda>(pid, rows). (pid, g rows)) (group_by key rs)) =
        filter (\<lambda>r. fst r = k) (map (\<lambda>(pid, rows). (pid, g rows)) (group_by key rs))"
    by (rule filter_cong) auto
  then show ?thesis
    unfolding filter_group_by by simp
qed

text \<open>
  Claim C1. In every state, \<^verbatim>\<open>stock_per_product\<close> returns one row for each product of the
  catalog, in the order of the table, whether or not the product has purchases or sales. Its
  \<open>remaining_stock\<close> is the sum of the quantities of the product's purchases minus the sum
  of the quantities of its sales, each sum being 0 when there is no row: a product without
  activity has 0, and nothing keeps the difference from being negative.
\<close>

theorem stock_per_product_all_products:
  "stock_per_product current_user d =
     (map (\<lambda>p. \<lparr>stk_product_id = prod_id p, stk_product_name = prod_name p,
                 remaining_stock =
                   sum_list (map purchase_quantity (filter (\<lambda>r. purchase_product_id r = prod_id p) (purchases d)))
                   - sum_list (map sale_quantity (filter (\<lambda>s. sale_product_id s = prod_id p) (sales d)))\<rparr>)
        (products d), d)"
proof -
  let ?S = "sales_sub d" and ?P = "purchase_sub d"
  have s1: "\<And>p. length (filter (\<lambda>r. prod_id p = fst r) ?S) \<le> 1"
    unfolding sales_sub_def by (rule sub_at_most_one)
  have p1: "\<And>x. length (filter (\<lambda>r. prod_id (fst x) = fst r) ?P) \<le> 1"
    unfolding purchase_sub_def by (rule sub_at_most_one)
  have j1: "outerjoin (products d) ?S (\<lambda>p r. prod_id p = fst r) =
        map (\<lambda>p. (p, case filter (\<lambda>r. prod_id p = fst r) ?S of [] \<Rightarrow> None | m # ms \<Rightarrow> Some m)) (products d)"
    by (rule outerjoin_single) (rule s1)
  have j2: "\<And>xs. outerjoin xs ?P (\<lambda>(p, s) r. prod_id p = fst r) =
        map (\<lambda>x. (x, case filter (\<lambda>r. prod_id (fst x) = fst r) ?P of [] \<Rightarrow> None | m # ms \<Rightarrow> Some m)) xs"
    unfolding case_prod_beta by (rule outerjoin_single) (rule p1)
  have "fst (stock_per_product current_user d) = map (\<lambda>p. \<lparr>stk_product_id = prod_id p, stk_product_name = prod_name p,
                 remaining_stock =
                   sum_list (map purchase_quantity (filter (\<lambda>r. purchase_product_id r = prod_id p) (purchases d)))
                   - sum_list (map sale_quantity (filter (\<lambda>s. sale_product_id s = prod_id p) (sales d)))\<rparr>)
        (products d)"
    unfolding stock_per_product_def j1 j2
    apply (simp add: o_def)
    apply (simp only: sales_sub_def purchase_sub_def coalesce_group_sum)
    apply simp
    done
  then show ?thesis by (simp add: stock_per_product_def)
qed



theorem stock_per_product_witness:
  "fst (stock_per_product alice shop) =
     [\<lparr>stk_product_id = 1, stk_product_name = ''Pen'', remaining_stock = 15\<rparr>,
      \<lparr>stk_product_id = 2, stk_product_name = ''Ink'', remaining_stock = - 3\<rparr>,
      \<lparr>stk_product_id = 3, stk_product_name = ''Pad'', remaining_stock = 0\<rparr>]"
  using stock_per_product_all_products [of alice shop] by (simp add: shop_def)

lemma db_ok_shop: "db_ok shop"
  by (simp add: db_ok_def no_orphans_def shop_def alice_def)














subsection \<open>The schema's constraints are kept\<close>

lemma db_ok_empty_db: "db_ok empty_db"
  by (simp add: db_ok_def no_orphans_def empty_db_def)

lemma fresh_id: "\<forall>x \<in> set xs. f x \<le> (n::int) \<Longrightarrow> n + 1 \<notin> f ` set xs"
  by force

lemma db_ok_create_product: "db_ok d \<Longrightarrow> db_ok (snd (create_product j u d))"
  unfolding db_ok_def no_orphans_def create_product_def nextval_def Let_def
  by (auto simp: image_iff split: option.splits)

lemma db_ok_create_sale: "db_ok d \<Longrightarrow> db_ok (snd (create_sale j u t d))"
  unfolding db_ok_def no_orphans_def create_sale_def nextval_def Let_def
  by (auto simp: image_iff)

lemma db_ok_create_purchase: "db_ok d \<Longrightarrow> db_ok (snd (create_purchase j u t d))"
  unfolding db_ok_def no_orphans_def create_purchase_def nextval_def Let_def
  by (auto simp: image_iff)

lemma db_ok_add_user: "db_ok d \<Longrightarrow> db_ok (snd (add_user e f p d))"
  unfolding db_ok_def no_orphans_def add_user_def nextval_def Let_def
  by (auto simp: image_iff split: option.splits)

lemma db_ok_register_user: "db_ok d \<Longrightarrow> db_ok (snd (register_user h tok body d))"
  using db_ok_add_user [of d "email body" "Some (fullname body)" "h (password body)"]
  by (auto simp: register_user_def Let_def split: sum.splits option.splits prod.splits)


lemma no_orphans_delete_product_row: "no_orphans d \<Longrightarrow> no_orphans (snd (delete_product_row pid d))"
  unfolding no_orphans_def delete_product_row_def
  by (auto simp: image_iff) metis+

lemma db_ok_delete_product_row: "db_ok d \<Longrightarrow> db_ok (snd (delete_product_row pid d))"
  using no_orphans_delete_product_row [of d pid]
  by (auto simp: db_ok_def delete_product_row_def distinct_map_filter)

lemma db_ok_session_delete_product: "db_ok d \<Longrightarrow> db_ok (snd (session_delete_product p d))"
proof -
  assume ok: "db_ok d"
  let ?d1 = "d\<lparr>sales := filter (\<lambda>s. sale_product_id s \<noteq> prod_id p) (sales d),
                purchases := filter (\<lambda>r. purchase_product_id r \<noteq> prod_id p) (purchases d)\<rparr>"
  have "no_orphans ?d1"
    using ok by (auto simp: db_ok_def no_orphans_def)
  then have "db_ok ?d1"
    using ok by (auto simp: db_ok_def distinct_map_filter)
  then have "db_ok (snd (delete_product_row (prod_id p) ?d1))"
    by (rule db_ok_delete_product_row)
  moreover have "snd (session_delete_product p d) = snd (delete_product_row (prod_id p) ?d1)"
    by (auto simp: session_delete_product_def delete_product_row_def)
  ultimately show ?thesis by simp
qed

subsection \<open>Recording sales and purchases\<close>

lemma create_sale_cases:
  "create_sale \<lparr>product_id = pid, quantity = q\<rparr> u t d =
     (if in_integer pid \<and> in_integer q \<and> sales_seq d < 2147483647 then
        if pid \<in> prod_id ` set (products d) \<and> sales_seq d + 1 \<notin> sale_id ` set (sales d)
        then (Inr \<lparr>sale_id = sales_seq d + 1, sale_product_id = pid, sale_quantity = q,
                    sale_created_at = t\<rparr>,
              d\<lparr>sales_seq := sales_seq d + 1,
                sales := sales d @ [\<lparr>sale_id = sales_seq d + 1, sale_product_id = pid,
                                     sale_quantity = q, sale_created_at = t\<rparr>]\<rparr>)
        else (Inl IntegrityError, d\<lparr>sales_seq := sales_seq d + 1\<rparr>)
      else (Inl DataError, d))"
  by (simp add: create_sale_def nextval_def Let_def)

lemma create_purchase_cases:
  "create_purchase \<lparr>pp_product_id = pid, pp_quantity = q\<rparr> u t d =
     (if in_integer pid \<and> in_integer q \<and> purchases_seq d < 2147483647 then
        if pid \<in> prod_id ` set (products d)
           \<and> purchases_seq d + 1 \<notin> purchase_id ` set (purchases d)
        then (Inr \<lparr>purchase_id = purchases_seq d + 1, purchase_product_id = pid,
                    purchase_quantity = q, purchase_created_at = t\<rparr>,
              d\<lparr>purchases_seq := purchases_seq d + 1,
                purchases := purchases d @ [\<lparr>purchase_id = purchases_seq d + 1,
                  purchase_product_id = pid, purchase_quantity = q, purchase_created_at = t\<rparr>]\<rparr>)
        else (Inl IntegrityError, d\<lparr>purchases_seq := purchases_seq d + 1\<rparr>)
      else (Inl DataError, d))"
  by (simp add: create_purchase_def nextval_def Let_def)

text \<open>
  Claim C3, amended. Nothing validates the sign of the quantity. For every quantity \<open>q \<le> 0\<close>, in a
  state that obeys the schema, \<^verbatim>\<open>create_sale\<close> and \<^verbatim>\<open>create_purchase\<close> succeed and append
  one row with that quantity to their ledger when \<open>pid\<close> is the id of a product, \<open>pid\<close> and
  \<open>q\<close> are in the range of INTEGER (\<open>q\<close> not below \<open>-2147483648\<close>) and the sequence of
  identifiers is not exhausted. Otherwise they fail with an exception of status 500, which is no
  validation error: \<open>DataError\<close> for a value out of range or an exhausted sequence, the
  \<open>IntegrityError\<close> of the foreign key for an unknown product; their ledger is then as
  before. \<^verbatim>\<open>create_sale\<close> never changes the purchases, nor \<^verbatim>\<open>create_purchase\<close> the sales.
\<close>

theorem create_nonpositive_quantity:
  assumes "db_ok d" and "q \<le> 0"
  shows "fst (create_sale \<lparr>product_id = pid, quantity = q\<rparr> u t d) =
           (if in_integer pid \<and> - 2147483648 \<le> q \<and> sales_seq d < 2147483647 then
              if pid \<in> prod_id ` set (products d)
              then Inr \<lparr>sale_id = sales_seq d + 1, sale_product_id = pid, sale_quantity = q,
                        sale_created_at = t\<rparr>
              else Inl IntegrityError
            else Inl DataError) \<and>
         sales (snd (create_sale \<lparr>product_id = pid, quantity = q\<rparr> u t d)) =
           (if in_integer pid \<and> - 2147483648 \<le> q \<and> sales_seq d < 2147483647
               \<and> pid \<in> prod_id ` set (products d)
            then sales d @ [\<lparr>sale_id = sales_seq d + 1, sale_product_id = pid, sale_quantity = q,
                              sale_created_at = t\<rparr>]
            else sales d) \<and>
         purchases (snd (create_sale \<lparr>product_id = pid, quantity = q\<rparr> u t d)) = purchases d \<and>
         fst (create_purchase \<lparr>pp_product_id = pid, pp_quantity = q\<rparr> u t d) =
           (if in_integer pid \<and> - 2147483648 \<le> q \<and> purchases_seq d < 2147483647 then
              if pid \<in> prod_id ` set (products d)
              then Inr \<lparr>purchase_id = purchases_seq d + 1, purchase_product_id = pid,
                        purchase_quantity = q, purchase_created_at = t\<rparr>
              else Inl IntegrityError
            else Inl DataError) \<and>
         purchases (snd (create_purchase \<lparr>pp_product_id = pid, pp_quantity = q\<rparr> u t d)) =
           (if in_integer pid \<and> - 2147483648 \<le> q \<and> purchases_seq d < 2147483647
               \<and> pid \<in> prod_id ` set (products d)
            then purchases d @ [\<lparr>purchase_id = purchases_seq d + 1, purchase_product_id = pid,
                                  purchase_quantity = q, purchase_created_at = t\<rparr>]
            else purchases d) \<and>
         sales (snd (create_purchase \<lparr>pp_product_id = pid, pp_quantity = q\<rparr> u t d)) = sales d"
proof -
  have s: "sales_seq d + 1 \<notin> sale_id ` set (sales d)"
    using assms(1) by (intro fresh_id) (simp add: db_ok_def)
  have p: "purchases_seq d + 1 \<notin> purchase_id ` set (purchases d)"
    using assms(1) by (intro fresh_id) (simp add: db_ok_def)
  have q: "in_integer q \<longleftrightarrow> - 2147483648 \<le> q"
    using assms(2) by (simp add: in_integer_def)
  show ?thesis
    unfolding create_sale_cases create_purchase_cases
    using s p by (simp add: q)
qed

theorem create_nonpositive_quantity_witness:
  "db_ok shop \<and> (- 5 :: int) \<le> 0 \<and>
   fst (create_sale \<lparr>product_id = 1, quantity = - 5\<rparr> alice 200 shop) =
     Inr \<lparr>sale_id = 4, sale_product_id = 1, sale_quantity = - 5, sale_created_at = 200\<rparr> \<and>
   fst (create_purchase \<lparr>pp_product_id = 1, pp_quantity = - 5\<rparr> alice 200 shop) =
     Inr \<lparr>purchase_id = 3, purchase_product_id = 1, purchase_quantity = - 5,
          purchase_created_at = 200\<rparr> \<and>
   fst (create_sale \<lparr>product_id = 9, quantity = - 5\<rparr> alice 200 shop) = Inl IntegrityError \<and>
   sales (snd (create_sale \<lparr>product_id = 9, quantity = - 5\<rparr> alice 200 shop)) = sales shop \<and>
   fst (create_sale \<lparr>product_id = 1, quantity = - 2147483649\<rparr> alice 200 shop) = Inl DataError \<and>
   sales (snd (create_sale \<lparr>product_id = 1, quantity = - 2147483649\<rparr> alice 200 shop)) = sales shop"
proof -
  have a: "(- 5 :: int) \<le> 0" and b: "(- 2147483649 :: int) \<le> 0"
    by simp_all
  show ?thesis
    using create_nonpositive_quantity [OF db_ok_shop a, of 1 alice 200]
      create_nonpositive_quantity [OF db_ok_shop a, of 9 alice 200]
      create_nonpositive_quantity [OF db_ok_shop b, of 1 alice 200] db_ok_shop
    by (simp add: shop_def in_integer_def)
qed

text \<open>
  Claim C3 as stated fails: a sale of quantity \<open>-5\<close> of an existing product is accepted with
  status 200 and persisted, and so is a purchase of quantity 0.
\<close>

theorem create_sale_nonpositive_counterexample:
  "fst (create_sale \<lparr>product_id = 1, quantity = - 5\<rparr> alice 200 shop) =
     Inr \<lparr>sale_id = 4, sale_product_id = 1, sale_quantity = - 5, sale_created_at = 200\<rparr> \<and>
   response_status (fst (create_sale \<lparr>product_id = 1, quantity = - 5\<rparr> alice 200 shop)) = 200 \<and>
   sales (snd (create_sale \<lparr>product_id = 1, quantity = - 5\<rparr> alice 200 shop)) =
     sales shop @ [\<lparr>sale_id = 4, sale_product_id = 1, sale_quantity = - 5, sale_created_at = 200\<rparr>] \<and>
   sales (snd (create_sale \<lparr>product_id = 1, quantity = - 5\<rparr> alice 200 shop)) \<noteq> sales shop \<and>
   purchases (snd (create_purchase \<lparr>pp_product_id = 1, pp_quantity = 0\<rparr> alice 200 shop)) \<noteq>
     purchases shop"
  by (simp add: create_sale_cases create_purchase_cases response_status_def shop_def
      in_integer_def)

text \<open>
  Claim C4, amended. For every quantity and every \<^verbatim>\<open>product_id\<close> that is the id of no product,
  \<^verbatim>\<open>create_sale\<close> fails with an exception that reaches the client as status 500, not 404: the
  \<open>IntegrityError\<close> of the foreign key when \<^verbatim>\<open>product_id\<close> and \<^verbatim>\<open>quantity\<close> are in the
  range of INTEGER and the sequence of identifiers is not exhausted, \<open>DataError\<close> otherwise.
  No table changes: no sale row is persisted.
\<close>

theorem create_sale_unknown_product:
  assumes "product_id j \<notin> prod_id ` set (products d)"
  shows "fst (create_sale j u t d) =
           Inl (if in_integer (product_id j) \<and> in_integer (quantity j) \<and> sales_seq d < 2147483647
                then IntegrityError else DataError) \<and>
         response_status (fst (create_sale j u t d)) = 500 \<and>
         users (snd (create_sale j u t d)) = users d \<and>
         products (snd (create_sale j u t d)) = products d \<and>
         sales (snd (create_sale j u t d)) = sales d \<and>
         purchases (snd (create_sale j u t d)) = purchases d"
  using assms by (simp add: create_sale_def nextval_def response_status_def Let_def)

theorem create_sale_unknown_product_witness:
  "product_id \<lparr>product_id = 9, quantity = 1\<rparr> \<notin> prod_id ` set (products shop) \<and>
   fst (create_sale \<lparr>product_id = 9, quantity = 1\<rparr> alice 200 shop) = Inl IntegrityError \<and>
   sales (snd (create_sale \<lparr>product_id = 9, quantity = 1\<rparr> alice 200 shop)) = sales shop \<and>
   product_id \<lparr>product_id = 2147483648, quantity = 1\<rparr> \<notin> prod_id ` set (products shop) \<and>
   fst (create_sale \<lparr>product_id = 2147483648, quantity = 1\<rparr> alice 200 shop) = Inl DataError \<and>
   sales (snd (create_sale \<lparr>product_id = 2147483648, quantity = 1\<rparr> alice 200 shop)) = sales shop"
proof -
  have h: "product_id \<lparr>product_id = 9, quantity = 1\<rparr> \<notin> prod_id ` set (products shop)"
    and k: "product_id \<lparr>product_id = 2147483648, quantity = 1\<rparr> \<notin> prod_id ` set (products shop)"
    by (simp_all add: shop_def)
  have s: "sales_seq shop = 3"
    by (simp add: shop_def)
  show ?thesis
    using h k create_sale_unknown_product [OF h, of alice 200]
      create_sale_unknown_product [OF k, of alice 200]
    by (simp add: in_integer_def s)
qed

text \<open>
  Claim C4 as stated fails: for a product id that does not exist the exception is
  \<open>IntegrityError\<close> with status 500, not a 404.
\<close>

theorem create_sale_not_found_counterexample:
  "fst (create_sale \<lparr>product_id = 9, quantity = 1\<rparr> alice 200 shop) = Inl IntegrityError \<and>
   response_status (fst (create_sale \<lparr>product_id = 9, quantity = 1\<rparr> alice 200 shop)) = 500 \<and>
   response_status (fst (create_sale \<lparr>product_id = 9, quantity = 1\<rparr> alice 200 shop)) \<noteq> 404"
  by (simp add: create_sale_cases response_status_def shop_def in_integer_def)

text \<open>
  Claim C5, amended. In a state that obeys the schema and whose sequence of sale identifiers is
  not exhausted, for a body whose \<^verbatim>\<open>product_id\<close> is the id of a product (in the range of
  INTEGER, as every stored id is) and whose quantity is positive and at most 2147483647,
  \<^verbatim>\<open>create_sale\<close> followed by \<^verbatim>\<open>get_sales\<close> gives the sales listed before the call
  followed by exactly one entry that was not among them; its \<^verbatim>\<open>product_id\<close> and
  \<^verbatim>\<open>quantity\<close> are those submitted, and its \<^verbatim>\<open>created_at\<close> is the reading \<open>utcnow\<close> of
  the clock at the insertion, hence not before the time of the call \<open>t_call\<close> on a clock that
  does not run backwards.
\<close>

theorem create_sale_then_get_sales:
  assumes "db_ok d" and "product_id j \<in> prod_id ` set (products d)"
    and "in_integer (product_id j)" and "0 < quantity j" and "quantity j \<le> 2147483647"
    and "sales_seq d < 2147483647" and "t_call \<le> utcnow"
  shows "\<exists>s. fst (create_sale j u utcnow d) = Inr s \<and>
           fst (get_sales u (snd (create_sale j u utcnow d))) = fst (get_sales u d) @ [s] \<and>
           filter (\<lambda>x. x \<notin> set (fst (get_sales u d)))
             (fst (get_sales u (snd (create_sale j u utcnow d)))) = [s] \<and>
           sale_product_id s = product_id j \<and> sale_quantity s = quantity j \<and>
           t_call \<le> sale_created_at s"
proof -
  let ?s = "\<lparr>sale_id = sales_seq d + 1, sale_product_id = product_id j,
              sale_quantity = quantity j, sale_created_at = utcnow\<rparr>"
  have fresh: "sales_seq d + 1 \<notin> sale_id ` set (sales d)"
    using assms(1) by (intro fresh_id) (simp add: db_ok_def)
  then have new: "?s \<notin> set (sales d)"
    by force
  have "in_integer (quantity j)"
    using assms(4,5) by (simp add: in_integer_def)
  then have res: "create_sale j u utcnow d =
      (Inr ?s, d\<lparr>sales_seq := sales_seq d + 1, sales := sales d @ [?s]\<rparr>)"
    using fresh assms(2,3,6) by (simp add: create_sale_def nextval_def Let_def)
  have "filter (\<lambda>x. x \<notin> set (sales d)) (sales d @ [?s]) = [?s]"
    using new by (simp add: filter_empty_conv)
  then show ?thesis
    using new assms(7) by (simp add: res get_sales_def)
qed

theorem create_sale_then_get_sales_witness:
  "db_ok shop \<and> product_id \<lparr>product_id = 2, quantity = 6\<rparr> \<in> prod_id ` set (products shop) \<and>
   in_integer (product_id \<lparr>product_id = 2, quantity = 6\<rparr>) \<and>
   0 < quantity \<lparr>product_id = 2, quantity = 6\<rparr> \<and>
   quantity \<lparr>product_id = 2, quantity = 6\<rparr> \<le> 2147483647 \<and>
   sales_seq shop < 2147483647 \<and> (150::int) \<le> 200 \<and>
   fst (get_sales alice (snd (create_sale \<lparr>product_id = 2, quantity = 6\<rparr> alice 200 shop))) =
     fst (get_sales alice shop) @
       [\<lparr>sale_id = 4, sale_product_id = 2, sale_quantity = 6, sale_created_at = 200\<rparr>]"
proof -
  have h: "product_id \<lparr>product_id = 2, quantity = 6\<rparr> \<in> prod_id ` set (products shop)"
    by (simp add: shop_def)
  have r: "in_integer (product_id \<lparr>product_id = 2, quantity = 6\<rparr>)"
    by (simp add: in_integer_def)
  have q: "0 < quantity \<lparr>product_id = 2, quantity = 6\<rparr>"
    and m: "quantity \<lparr>product_id = 2, quantity = 6\<rparr> \<le> 2147483647"
    and c: "(150::int) \<le> 200"
    by simp_all
  have n: "sales_seq shop < 2147483647"
    by (simp add: shop_def)
  from create_sale_then_get_sales [OF db_ok_shop h r q m n c, of alice]
  obtain s where "fst (create_sale \<lparr>product_id = 2, quantity = 6\<rparr> alice 200 shop) = Inr s"
    and "fst (get_sales alice (snd (create_sale \<lparr>product_id = 2, quantity = 6\<rparr> alice 200 shop))) =
         fst (get_sales alice shop) @ [s]"
    by blast
  moreover have "fst (create_sale \<lparr>product_id = 2, quantity = 6\<rparr> alice 200 shop) =
      Inr \<lparr>sale_id = 4, sale_product_id = 2, sale_quantity = 6, sale_created_at = 200\<rparr>"
    by (simp add: create_sale_cases shop_def in_integer_def)
  ultimately show ?thesis
    using db_ok_shop h r n by simp
qed

text \<open>
  Claim C5 as stated fails: the quantity 2147483648 is positive and product 1 exists, yet the call
  ends with \<open>DataError\<close>, the state is unchanged and \<^verbatim>\<open>get_sales\<close> lists no new entry.
\<close>

theorem create_sale_out_of_range_counterexample:
  "product_id \<lparr>product_id = 1, quantity = 2147483648\<rparr> \<in> prod_id ` set (products shop) \<and>
   0 < quantity \<lparr>product_id = 1, quantity = 2147483648\<rparr> \<and>
   create_sale \<lparr>product_id = 1, quantity = 2147483648\<rparr> alice 200 shop = (Inl DataError, shop) \<and>
   fst (get_sales alice (snd (create_sale \<lparr>product_id = 1, quantity = 2147483648\<rparr> alice 200 shop))) =
     fst (get_sales alice shop)"
  by (simp add: create_sale_cases in_integer_def shop_def)

subsection \<open>Registration\<close>

lemma filter_unique_key:
  "distinct (map f xs) \<Longrightarrow> x \<in> set xs \<Longrightarrow> filter (\<lambda>y. f y = f x) xs = [x]"
proof (induction xs)
  case Nil
  then show ?case by simp
next
  case (Cons a xs)
  show ?case
  proof (cases "a = x")
    case True
    then have "filter (\<lambda>y. f y = f x) xs = []"
      using Cons.prems by (auto simp: filter_empty_conv image_iff)
    with True show ?thesis by simp
  next
    case False
    then have "x \<in> set xs" and "f a \<noteq> f x"
      using Cons.prems by auto
    with Cons show ?thesis by simp
  qed
qed

text \<open>
  Claim C6. In a state that obeys the schema and holds a user with the email of the body,
  \<^verbatim>\<open>register_user\<close> raises the \<open>HTTPException\<close> of status 400 with detail
  \<^verbatim>\<open>Email already registered\<close>, and the state is the one before the call: the existing
  user keeps its id, email, fullname and password hash, and no user is created.
\<close>

theorem register_user_duplicate_email:
  assumes "db_ok d" and "existing \<in> set (users d)" and "user_email existing = email body"
  shows "register_user get_password_hash create_access_token body d =
           (Inl (HTTPException 400 ''Email already registered''), d) \<and>
         response_status (fst (register_user get_password_hash create_access_token body d)) = 400"
proof -
  have "distinct (map user_email (users d))"
    using assms(1) by (simp add: db_ok_def)
  from filter_unique_key [OF this assms(2)]
  have "filter (\<lambda>u. user_email u = email body) (users d) = [existing]"
    by (simp add: assms(3))
  then show ?thesis
    by (simp add: register_user_def scalar_one_or_none_def response_status_def)
qed

theorem register_user_duplicate_email_witness:
  "db_ok shop \<and> alice \<in> set (users shop) \<and>
   user_email alice = email \<lparr>email = ''alice@duka.test'', fullname = ''Mallory'', password = ''pw''\<rparr> \<and>
   register_user (\<lambda>p. ''#'' @ p) (\<lambda>sub ttl. ''token:'' @ sub)
       \<lparr>email = ''alice@duka.test'', fullname = ''Mallory'', password = ''pw''\<rparr> shop =
     (Inl (HTTPException 400 ''Email already registered''), shop) \<and>
   users shop = [alice]"
proof -
  have m: "alice \<in> set (users shop)"
    by (simp add: shop_def)
  have e: "user_email alice =
      email \<lparr>email = ''alice@duka.test'', fullname = ''Mallory'', password = ''pw''\<rparr>"
    by (simp add: alice_def)
  show ?thesis
    using register_user_duplicate_email [OF db_ok_shop m e, of "\<lambda>p. ''#'' @ p" "\<lambda>sub ttl. ''token:'' @ sub"]
      db_ok_shop m e
    by (simp add: shop_def)
qed

subsection \<open>Deleting a product\<close>

text \<open>
  Claim C7, amended. The cascade is that of the session, not of the foreign keys. In a state
  without orphans, deleting a product through the session (\<^verbatim>\<open>cascade="all, delete-orphan"\<close>)
  succeeds, removes the product together with every sale and every purchase that references it,
  keeps the other rows, and leaves no orphan. The deletion of the product's row alone, at the level
  of the tables, does not cascade: it is refused with an integrity error and changes nothing when
  a sale or a purchase references the product, and removes only the product otherwise; no orphan
  remains in either case.
\<close>

theorem session_delete_product_cascades:
  assumes "no_orphans d"
  shows "fst (session_delete_product p d) = Inr () \<and>
         products (snd (session_delete_product p d)) =
           filter (\<lambda>x. prod_id x \<noteq> prod_id p) (products d) \<and>
         sales (snd (session_delete_product p d)) =
           filter (\<lambda>s. sale_product_id s \<noteq> prod_id p) (sales d) \<and>
         purchases (snd (session_delete_product p d)) =
           filter (\<lambda>r. purchase_product_id r \<noteq> prod_id p) (purchases d) \<and>
         no_orphans (snd (session_delete_product p d)) \<and>
         delete_product_row (prod_id p) d =
           (if prod_id p \<in> sale_product_id ` set (sales d) \<union> purchase_product_id ` set (purchases d)
            then (Inl IntegrityError, d)
            else (Inr (), d\<lparr>products := filter (\<lambda>x. prod_id x \<noteq> prod_id p) (products d)\<rparr>)) \<and>
         no_orphans (snd (delete_product_row (prod_id p) d))"
proof -
  let ?d1 = "d\<lparr>sales := filter (\<lambda>s. sale_product_id s \<noteq> prod_id p) (sales d),
                purchases := filter (\<lambda>r. purchase_product_id r \<noteq> prod_id p) (purchases d)\<rparr>"
  have r: "delete_product_row (prod_id p) ?d1 =
           (Inr (), ?d1\<lparr>products := filter (\<lambda>x. prod_id x \<noteq> prod_id p) (products d)\<rparr>)"
    by (auto simp: delete_product_row_def)
  have s: "session_delete_product p d =
           (Inr (), ?d1\<lparr>products := filter (\<lambda>x. prod_id x \<noteq> prod_id p) (products d)\<rparr>)"
    by (simp add: session_delete_product_def r)
  have o: "no_orphans (?d1\<lparr>products := filter (\<lambda>x. prod_id x \<noteq> prod_id p) (products d)\<rparr>)"
    using assms unfolding no_orphans_def by (auto simp: image_iff) metis+
  have t: "delete_product_row (prod_id p) d =
           (if prod_id p \<in> sale_product_id ` set (sales d) \<union> purchase_product_id ` set (purchases d)
            then (Inl IntegrityError, d)
            else (Inr (), d\<lparr>products := filter (\<lambda>x. prod_id x \<noteq> prod_id p) (products d)\<rparr>))"
    by (simp add: delete_product_row_def)
  show ?thesis
    using o t no_orphans_delete_product_row [OF assms, of "prod_id p"] by (simp add: s)
qed

theorem session_delete_product_witness:
  "no_orphans shop \<and>
   fst (session_delete_product \<lparr>prod_id = 1, prod_name = ''Pen'', prod_buying_price = 6,
          prod_selling_price = 10\<rparr> shop) = Inr () \<and>
   map sale_id (sales (snd (session_delete_product \<lparr>prod_id = 1, prod_name = ''Pen'',
          prod_buying_price = 6, prod_selling_price = 10\<rparr> shop))) = [3] \<and>
   map purchase_id (purchases (snd (session_delete_product \<lparr>prod_id = 1, prod_name = ''Pen'',
          prod_buying_price = 6, prod_selling_price = 10\<rparr> shop))) = [2] \<and>
   map prod_id (products (snd (session_delete_product \<lparr>prod_id = 1, prod_name = ''Pen'',
          prod_buying_price = 6, prod_selling_price = 10\<rparr> shop))) = [2, 3]"
proof -
  have h: "no_orphans shop"
    using db_ok_shop by (simp add: db_ok_def)
  show ?thesis
    using h session_delete_product_cascades [OF h, of "\<lparr>prod_id = 1, prod_name = ''Pen'',
      prod_buying_price = 6, prod_selling_price = 10\<rparr>"]
    by (simp add: shop_def)
qed

text \<open>
  Claim C7 as stated fails: at the level of the tables, deleting product 1, which has sales and
  purchases, deletes nothing and raises the integrity error of the foreign key.
\<close>

theorem delete_product_row_counterexample:
  "delete_product_row 1 shop = (Inl IntegrityError, shop) \<and>
   map prod_id (products (snd (delete_product_row 1 shop))) = [1, 2, 3] \<and>
   map sale_product_id (sales (snd (delete_product_row 1 shop))) = [1, 1, 2] \<and>
   map purchase_product_id (purchases (snd (delete_product_row 1 shop))) = [1, 2]"
  by (simp add: delete_product_row_def shop_def)

subsection \<open>The session of a call\<close>

text \<open>
  Claim C8, amended. No call ends holding a session it obtained from \<^verbatim>\<open>get_db\<close>. A call
  whose handler depends on \<^verbatim>\<open>get_db\<close> obtains, when \<^verbatim>\<open>SessionLocal()\<close> returns a
  session, exactly that one session, and closes it after the handler whatever the handler
  returns or raises. The calls of \<^verbatim>\<open>read_root\<close> and \<^verbatim>\<open>login_user\<close>, whose handlers do
  not depend on \<^verbatim>\<open>get_db\<close>, obtain no session from it.
\<close>

theorem get_db_closes_session:
  "held [] (snd (api_call ep session_local handler)) = [] \<and>
   (depends_get_db ep \<longrightarrow>
      api_call ep (Inr db) handler = (handler (Some db), [Acquire db, Run, Close db]) \<and>
      acquired (snd (api_call ep (Inr db) handler)) = [db]) \<and>
   (\<not> depends_get_db ep \<longrightarrow>
      api_call ep session_local handler = (handler None, [Run]) \<and>
      acquired (snd (api_call ep session_local handler)) = [])"
proof -
  have g: "get_db (Inr db') (\<lambda>db. handler (Some db)) =
           (handler (Some db'), [Acquire db', Run, Close db'])" for db'
    by (cases "handler (Some db')") (simp_all add: get_db_def)
  show ?thesis
    by (cases session_local) (simp_all add: api_call_def g, simp add: get_db_def)
qed

theorem get_db_closes_session_witness:
  "depends_get_db POST_sales \<and> \<not> depends_get_db POST_login \<and>
   api_call POST_sales (Inr (7::nat)) (\<lambda>db. Inl IntegrityError :: error + unit) =
     (Inl IntegrityError, [Acquire 7, Run, Close 7]) \<and>
   held [] (snd (api_call POST_sales (Inr (7::nat)) (\<lambda>db. Inl IntegrityError :: error + unit))) = [] \<and>
   acquired (snd (api_call POST_login (Inr (7::nat)) (\<lambda>db. Inr () :: error + unit))) = []"
  using get_db_closes_session [of POST_sales "Inr (7::nat)" "\<lambda>db. Inl IntegrityError :: error + unit" 7]
    get_db_closes_session [of POST_login "Inr (7::nat)" "\<lambda>db. Inr () :: error + unit" 7]
  by simp

text \<open>
  Claim C8 as stated fails: a call of \<^verbatim>\<open>GET /\<close> obtains no session, not exactly one.
\<close>

theorem api_call_root_counterexample:
  "acquired (snd (api_call GET_root (Inr (7::nat)) (\<lambda>db. Inr () :: error + unit))) = [] \<and>
   length (acquired (snd (api_call GET_root (Inr (7::nat)) (\<lambda>db. Inr () :: error + unit)))) \<noteq> 1"
  by (simp add: api_call_def)

subsection \<open>Creating a product\<close>

lemma varchar_fits: "length s \<le> n \<Longrightarrow> varchar n s = Some s"
  by (simp add: varchar_def)

text \<open>
  Claim C9, amended. In a state that obeys the schema and whose sequence of product identifiers is
  not exhausted, \<^verbatim>\<open>create_product\<close> succeeds for every body whose name has at most 100
  characters, none of them NUL, and appends to the catalog a product with exactly the submitted
  name, buying price and selling price under the next id. The prices are of an arbitrary type and
  are never inspected: a negative price is stored unchanged, as the evaluation that follows the
  theorem shows.
\<close>

theorem create_product_stores_body:
  assumes "db_ok d" and "length (name j) \<le> 100" and "\<not> has_nul (name j)"
    and "products_seq d < 2147483647"
  shows "fst (create_product j u d) =
           Inr \<lparr>prod_id = products_seq d + 1, prod_name = name j,
                prod_buying_price = buying_price j, prod_selling_price = selling_price j\<rparr> \<and>
         products (snd (create_product j u d)) =
           products d @ [\<lparr>prod_id = products_seq d + 1, prod_name = name j,
                           prod_buying_price = buying_price j, prod_selling_price = selling_price j\<rparr>]"
proof -
  have "products_seq d + 1 \<notin> prod_id ` set (products d)"
    using assms(1) by (intro fresh_id) (simp add: db_ok_def)
  then show ?thesis
    using assms(3,4) by (simp add: create_product_def varchar_fits [OF assms(2)] nextval_def Let_def)
qed

theorem create_product_stores_body_witness:
  "db_ok shop \<and> length ''Nib'' \<le> 100 \<and> \<not> has_nul ''Nib'' \<and> products_seq shop < 2147483647 \<and>
   fst (create_product \<lparr>name = ''Nib'', buying_price = - 7 / 2, selling_price = - 1\<rparr> alice shop) =
     Inr \<lparr>prod_id = 4, prod_name = ''Nib'', prod_buying_price = - 7 / 2, prod_selling_price = - 1\<rparr> \<and>
   map prod_selling_price (products (snd (create_product
       \<lparr>name = ''Nib'', buying_price = - 7 / 2, selling_price = - 1\<rparr> alice shop))) = [10, 4, 2, - 1]"
proof -
  have l: "length (name \<lparr>name = ''Nib'', buying_price = - 7 / 2 :: real, selling_price = - 1\<rparr>) \<le> 100"
    and z: "\<not> has_nul (name \<lparr>name = ''Nib'', buying_price = - 7 / 2 :: real, selling_price = - 1\<rparr>)"
    by (simp_all add: has_nul_def)
  have n: "products_seq shop < 2147483647"
    by (simp add: shop_def)
  show ?thesis
    using create_product_stores_body [OF db_ok_shop l z n, of alice] db_ok_shop n
    by (simp add: shop_def has_nul_def)
qed

text \<open>
  Claim C9 as stated fails: a body whose name has 101 characters is well-formed for
  \<^verbatim>\<open>ProductPostMap\<close>, yet the call ends with \<open>DataError\<close> and nothing is stored.
\<close>

theorem create_product_long_name_counterexample:
  "length (replicate 101 CHR ''a'') = 101 \<and>
   create_product \<lparr>name = replicate 101 CHR ''a'', buying_price = 1, selling_price = 2\<rparr> alice shop =
     (Inl DataError, shop) \<and>
   products (snd (create_product
     \<lparr>name = replicate 101 CHR ''a'', buying_price = 1, selling_price = 2\<rparr> alice shop)) =
     products shop"
  by (simp add: create_product_def has_nul_def varchar_def)

subsection \<open>Reading writes nothing\<close>

text \<open>
  Claim C10. \<^verbatim>\<open>sales_per_product\<close>, \<^verbatim>\<open>stock_per_product\<close>, \<^verbatim>\<open>get_products\<close>,
  \<^verbatim>\<open>get_sales\<close> and \<^verbatim>\<open>get_purchases\<close> write nothing: in every state, the state after
  the call (the four tables and the sequences) is the state before it.
\<close>

theorem read_endpoints_write_nothing:
  "snd (sales_per_product to_float u d) = d \<and> snd (stock_per_product u d) = d \<and>
   snd (get_products u d) = d \<and> snd (get_sales u d) = d \<and> snd (get_purchases u d) = d"
  by (simp add: sales_per_product_def stock_per_product_def get_products_def get_sales_def
      get_purchases_def)

end
